theory Spec2Isabelle
  imports Main "HOL-Library.Word"
begin

section \<open>The chat area component (src/components/chat-area.tsx)\<close>

text \<open>
  The component is one function, \<open>ChatArea\<close>, from a props object to a tree of JSX
  elements. The tree is modelled as a datatype, the function as a HOL function that
  builds the same tree, attribute by attribute and child by child.
\<close>

subsection \<open>JavaScript strings\<close>

text \<open>
  A JavaScript string is a sequence of 16-bit code units. The literals of the source are
  ASCII, so \<open>utf16\<close> maps each character to the code unit of the same number.
\<close>

type_synonym js_string = "16 word list"

definition utf16 :: "string \<Rightarrow> js_string" where
  "utf16 s = map of_char s"

text \<open>
  What \<^verbatim>\<open>String.prototype.trim\<close> strips: the WhiteSpace and LineTerminator code points
  of ECMAScript (TAB, LF, VT, FF, CR, SP, NBSP, the space separators U+1680,
  U+2000..U+200A, U+202F, U+205F, U+3000, the separators U+2028 and U+2029, and the
  byte order mark U+FEFF).
\<close>

definition is_white_space :: "16 word \<Rightarrow> bool" where
  "is_white_space c \<longleftrightarrow>
     c = 0x0009 \<or> c = 0x000A \<or> c = 0x000B \<or> c = 0x000C \<or> c = 0x000D \<or>
     c = 0x0020 \<or> c = 0x00A0 \<or> c = 0x1680 \<or> (0x2000 \<le> c \<and> c \<le> 0x200A) \<or>
     c = 0x2028 \<or> c = 0x2029 \<or> c = 0x202F \<or> c = 0x205F \<or> c = 0x3000 \<or>
     c = 0xFEFF"

definition trim :: "js_string \<Rightarrow> js_string" where
  "trim s = rev (dropWhile is_white_space (rev (dropWhile is_white_space s)))"

text \<open>A string is falsy exactly when it is empty, so \<^verbatim>\<open>!s\<close> is \<open>\<not> truthy s\<close>.\<close>

definition truthy :: "js_string \<Rightarrow> bool" where
  "truthy s \<longleftrightarrow> s \<noteq> []"

text \<open>
  \<^verbatim>\<open>xs[i]\<close> on an array: the element, or \<^verbatim>\<open>undefined\<close> (here \<open>None\<close>) when the index
  is out of range. The index is an integer: \<^verbatim>\<open>messages.length - 1\<close> is -1 on the empty
  array.
\<close>

definition at_index :: "'a list \<Rightarrow> int \<Rightarrow> 'a option" where
  "at_index xs i = (if 0 \<le> i \<and> i < int (length xs) then Some (xs ! nat i) else None)"

subsection \<open>Messages and props\<close>

text \<open>
  The fields of \<^verbatim>\<open>Message\<close> (imported from the package "ai") that the component reads.
  The role is kept as the string it is at run time: the component compares it with
  \<^verbatim>\<open>"user"\<close> and nothing else.
\<close>

record message =
  id_msg :: js_string
  role :: js_string
  content :: js_string

text \<open>
  \<^verbatim>\<open>ChatAreaProps\<close>. The two handlers are values the component passes on and never
  calls itself, so their types are parameters. The type \<open>'m\<close> is how the message array
  is held: as its contents (\<open>message list\<close>) or as a reference into a heap.
\<close>

record ('m, 'c, 's) ChatAreaProps =
  messages :: 'm
  input :: js_string
  handleInputChange :: 'c
  handleSubmit :: 's
  isLoading :: bool

subsection \<open>The JSX tree\<close>

text \<open>
  An attribute value is a literal string of the source, a run-time string, a number, a
  boolean, a style object or one of the two handlers.
\<close>

datatype ('c, 's) attr =
    Str string
  | JsStr js_string
  | Num int
  | Flag bool
  | Style "(string \<times> string) list"
  | ChangeHandler 'c
  | SubmitHandler 's

text \<open>
  A node is an element (tag or component name, key, attributes, children), a fragment
  \<^verbatim>\<open><>...</>\<close>, an array of nodes (the value of \<^verbatim>\<open>messages.map(...)\<close>), literal text,
  the text of a run-time string (\<^verbatim>\<open>{message.content}\<close>), or the value \<^verbatim>\<open>false\<close> of a
  failed \<^verbatim>\<open>&&\<close> chain.
\<close>

datatype ('c, 's) node =
    Element string "js_string option" "(string \<times> ('c, 's) attr) list" "('c, 's) node list"
  | Fragment "('c, 's) node list"
  | Items "('c, 's) node list"
  | Text string
  | Expr js_string
  | JsFalse

subsection \<open>The pieces of the tree\<close>

text \<open>Lines 44-49: the header.\<close>

definition header :: "('c, 's) node" where
  "header =
     Element ''div'' None
       [(''className'', Str ''border-b border-border p-4 flex items-center justify-center'')]
       [Element ''div'' None [(''className'', Str ''flex items-center gap-2'')]
          [Element ''Sparkles'' None [(''size'', Num 18), (''className'', Str ''text-primary'')] [],
           Element ''span'' None [(''className'', Str ''font-medium'')] [Text ''AI Assistant'']]]"

text \<open>Lines 56-63: the empty state.\<close>

definition empty_state :: "('c, 's) node" where
  "empty_state =
     Element ''div'' None
       [(''className'', Str ''flex h-[60vh] items-center justify-center text-center'')]
       [Element ''div'' None [(''className'', Str ''max-w-md space-y-2'')]
          [Element ''h2'' None [(''className'', Str ''text-2xl font-bold'')]
             [Text ''How can I help you today?''],
           Element ''p'' None [(''className'', Str ''text-muted-foreground'')]
             [Text ''Ask me anything! I can help with coding, explanations, creative writing, and more.'']]]"

text \<open>Lines 67-92: the callback of \<^verbatim>\<open>messages.map\<close>, one bubble for one message.\<close>

definition message_bubble :: "message \<Rightarrow> ('c, 's) node" where
  "message_bubble message =
     Element ''div'' (Some (id_msg message))
       [(''className'',
         Str (''flex '' @ (if role message = utf16 ''user'' then ''justify-end'' else ''justify-start'')))]
       [Element ''div'' None
          [(''className'',
            Str (''flex gap-3 max-w-[80%] '' @
                 (if role message = utf16 ''user'' then ''flex-row-reverse'' else '''')))]
          [Element ''Avatar'' None [(''className'', Str ''h-10 w-10'')]
             [if role message = utf16 ''user''
              then Fragment
                     [Element ''AvatarFallback'' None [] [Text ''U''],
                      Element ''AvatarImage'' None [(''src'', Str ''/avatar.png'')] []]
              else Fragment
                     [Element ''AvatarFallback'' None [] [Text ''AI''],
                      Element ''AvatarImage'' None [(''src'', Str ''/avatar.png'')] []]],
           Element ''div'' None
             [(''className'',
               Str (''rounded-lg p-4 '' @
                    (if role message = utf16 ''user''
                     then ''bg-primary text-primary-foreground'' else ''bg-muted'')))]
             [Element ''p'' None [(''className'', Str ''whitespace-pre-wrap'')]
                [Expr (content message)]]]]"

text \<open>Lines 97-111: the loading indicator, three bouncing dots in an assistant bubble.\<close>

definition dot :: "string \<Rightarrow> ('c, 's) node" where
  "dot delay =
     Element ''span'' None
       [(''className'', Str ''w-2 h-2 bg-muted-foreground/40 rounded-full animate-bounce''),
        (''style'', Style [(''animationDelay'', delay)])] []"

definition loading_indicator :: "('c, 's) node" where
  "loading_indicator =
     Element ''div'' None [(''className'', Str ''flex justify-start'')]
       [Element ''div'' None [(''className'', Str ''flex gap-3 max-w-[80%]'')]
          [Element ''Avatar'' None [(''className'', Str ''h-10 w-10'')]
             [Element ''AvatarFallback'' None [] [Text ''AI''],
              Element ''AvatarImage'' None [(''src'', Str ''/avatar.png'')] []],
           Element ''div'' None [(''className'', Str ''rounded-lg p-4 bg-muted flex items-center gap-2'')]
             [Element ''div'' None [(''className'', Str ''flex gap-1'')]
                [dot ''0ms'', dot ''150ms'', dot ''300ms'']]]]"

text \<open>
  Lines 117-134: the composer. The form gets the caller's submit handler as it is, the
  textarea the caller's draft and change handler as they are, and the button is disabled
  by \<^verbatim>\<open>isLoading || !input.trim()\<close>.
\<close>

definition composer :: "js_string \<Rightarrow> 'c \<Rightarrow> 's \<Rightarrow> bool \<Rightarrow> ('c, 's) node" where
  "composer inp on_change on_submit loading =
     Element ''div'' None [(''className'', Str ''border-t border-border p-4'')]
       [Element ''form'' None
          [(''onSubmit'', SubmitHandler on_submit), (''className'', Str ''relative'')]
          [Element ''Textarea'' None
             [(''name'', Str ''prompt''),
              (''value'', JsStr inp),
              (''onChange'', ChangeHandler on_change),
              (''placeholder'', Str ''Message AI Assistant...''),
              (''className'', Str ''min-h-[60px] w-full resize-none pr-12 py-3 rounded-lg''),
              (''rows'', Num 1)] [],
           Element ''Button'' None
             [(''type'', Str ''submit''),
              (''size'', Str ''icon''),
              (''className'', Str ''absolute right-2 bottom-2''),
              (''disabled'', Flag (loading \<or> \<not> truthy (trim inp)))]
             [Element ''SendIcon'' None [(''size'', Num 18)] []]],
        Element ''p'' None [(''className'', Str ''text-xs text-center text-muted-foreground mt-2'')]
          [Text ''AI Assistant may produce inaccurate information. Verify important information.'']]"

subsection \<open>The component\<close>

text \<open>
  Lines 40-137. The scroll area holds one \<^verbatim>\<open>div\<close> with two children: the value of the
  conditional of line 55 (the empty state, or the array of bubbles) and the value of the
  \<^verbatim>\<open>&&\<close> chain of line 96 (the loading indicator, or \<^verbatim>\<open>false\<close>).
\<close>

definition ChatArea :: "(message list, 'c, 's) ChatAreaProps \<Rightarrow> ('c, 's) node" where
  "ChatArea props =
     Element ''div'' None [(''className'', Str ''flex flex-col h-full'')]
       [header,
        Element ''ScrollArea'' None [(''className'', Str ''flex-1 p-4'')]
          [Element ''div'' None [(''className'', Str ''space-y-6'')]
             [if length (messages props) = 0
              then empty_state
              else Items (map message_bubble (messages props)),
              if isLoading props \<and> length (messages props) > 0 \<and>
                 map_option role (at_index (messages props) (int (length (messages props)) - 1))
                   = Some (utf16 ''user'')
              then loading_indicator
              else JsFalse]],
        composer (input props) (handleInputChange props) (handleSubmit props) (isLoading props)]"

subsection \<open>Reading a tree\<close>

text \<open>
  How a child is shown: a fragment or an array shows its members in order,
  \<^verbatim>\<open>false\<close> shows nothing, anything else shows as itself.
\<close>

fun rendered :: "('c, 's) node \<Rightarrow> ('c, 's) node list" where
  "rendered (Fragment ns) = concat (map rendered ns)"
| "rendered (Items ns) = concat (map rendered ns)"
| "rendered JsFalse = []"
| "rendered n = [n]"

text \<open>
  The transcript of a chat area: what is shown inside the \<^verbatim>\<open>div\<close> of the scroll area,
  the second of the three children of the root.
\<close>

fun transcript :: "('c, 's) node \<Rightarrow> ('c, 's) node list" where
  "transcript (Element _ _ _ [_, Element _ _ _ [Element _ _ _ cs], _]) = concat (map rendered cs)"
| "transcript _ = []"

text \<open>All elements of a tree, parents before children, in document order.\<close>

fun elements :: "('c, 's) node \<Rightarrow> ('c, 's) node list" where
  "elements (Element tg k ats cs) = Element tg k ats cs # concat (map elements cs)"
| "elements (Fragment cs) = concat (map elements cs)"
| "elements (Items cs) = concat (map elements cs)"
| "elements _ = []"

fun tag_of :: "('c, 's) node \<Rightarrow> string option" where
  "tag_of (Element tg _ _ _) = Some tg"
| "tag_of _ = None"

fun key_of :: "('c, 's) node \<Rightarrow> js_string option" where
  "key_of (Element _ k _ _) = k"
| "key_of _ = None"

fun children_of :: "('c, 's) node \<Rightarrow> ('c, 's) node list" where
  "children_of (Element _ _ _ cs) = cs"
| "children_of (Fragment cs) = cs"
| "children_of (Items cs) = cs"
| "children_of _ = []"

fun attribute :: "string \<Rightarrow> ('c, 's) node \<Rightarrow> ('c, 's) attr option" where
  "attribute name (Element _ _ ats _) = map_of ats name"
| "attribute name _ = None"

definition tagged :: "string \<Rightarrow> ('c, 's) node \<Rightarrow> ('c, 's) node list" where
  "tagged tg t = filter (\<lambda>e. tag_of e = Some tg) (elements t)"

text \<open>The class names of a tree, in document order.\<close>

definition class_name :: "('c, 's) node \<Rightarrow> string list" where
  "class_name e = (case attribute ''className'' e of Some (Str c) \<Rightarrow> [c] | _ \<Rightarrow> [])"

definition class_names :: "('c, 's) node \<Rightarrow> string list" where
  "class_names t = concat (map class_name (elements t))"

text \<open>The literal text of the avatar fallbacks of a tree.\<close>

fun literal_text :: "('c, 's) node \<Rightarrow> string list" where
  "literal_text (Text s) = [s]"
| "literal_text _ = []"

definition fallback :: "('c, 's) node \<Rightarrow> string list" where
  "fallback t = concat (map (\<lambda>e. concat (map literal_text (children_of e))) (tagged ''AvatarFallback'' t))"

text \<open>The run-time text of a tree: the strings of its \<open>Expr\<close> nodes, in document order.\<close>

fun run_time_text :: "('c, 's) node \<Rightarrow> js_string list" where
  "run_time_text (Element _ _ _ cs) = concat (map run_time_text cs)"
| "run_time_text (Fragment cs) = concat (map run_time_text cs)"
| "run_time_text (Items cs) = concat (map run_time_text cs)"
| "run_time_text (Expr s) = [s]"
| "run_time_text _ = []"

text \<open>
  The submit controls of a tree (the buttons of type \<^verbatim>\<open>submit\<close>), and whether an
  element carries \<^verbatim>\<open>disabled={true}\<close>.
\<close>

definition submit_controls :: "('c, 's) node \<Rightarrow> ('c, 's) node list" where
  "submit_controls t =
     filter (\<lambda>e. tag_of e = Some ''Button'' \<and> attribute ''type'' e = Some (Str ''submit''))
       (elements t)"

definition disabled :: "('c, 's) node \<Rightarrow> bool" where
  "disabled e \<longleftrightarrow> attribute ''disabled'' e = Some (Flag True)"

text \<open>The draft a tree displays: the \<^verbatim>\<open>value\<close> of its text areas.\<close>

definition value_of :: "('c, 's) node \<Rightarrow> js_string list" where
  "value_of e = (case attribute ''value'' e of Some (JsStr v) \<Rightarrow> [v] | _ \<Rightarrow> [])"

definition displayed_draft :: "('c, 's) node \<Rightarrow> js_string list" where
  "displayed_draft t = concat (map value_of (tagged ''Textarea'' t))"

text \<open>
  Where a tree holds a handler: the tag of the element, the name of the attribute and
  the attribute, in document order.
\<close>

fun is_handler :: "('c, 's) attr \<Rightarrow> bool" where
  "is_handler (ChangeHandler _) = True"
| "is_handler (SubmitHandler _) = True"
| "is_handler _ = False"

fun handlers_at :: "('c, 's) node \<Rightarrow> (string \<times> string \<times> ('c, 's) attr) list" where
  "handlers_at (Element tg _ ats _) =
     map (\<lambda>(name, a). (tg, name, a)) (filter (\<lambda>(name, a). is_handler a) ats)"
| "handlers_at _ = []"

definition handlers :: "('c, 's) node \<Rightarrow> (string \<times> string \<times> ('c, 's) attr) list" where
  "handlers t = concat (map handlers_at (elements t))"

subsection \<open>The host: user gestures and the calls they cause\<close>

text \<open>
  Modelled from the spec: how the host delivers what the user does in the composer to
  the handlers of the rendered tree. The source only hands the handlers and the
  \<^verbatim>\<open>disabled\<close> flag to \<^verbatim>\<open>form\<close>, \<^verbatim>\<open>Textarea\<close> and \<^verbatim>\<open>Button\<close>; the event dispatch
  of the host and the primitives \<^verbatim>\<open>./ui/button\<close> and \<^verbatim>\<open>./ui/text-area\<close> are not in
  the source. The spec's words: \<^verbatim>\<open>onInputChange\<close> is invoked "on every keystroke/edit in
  the composer", "exactly once per edit event with the new value"; \<^verbatim>\<open>onSubmit\<close> is
  invoked "when the user submits the composer (keyboard submit or clicking the send
  control), but only when the control is not disabled".
\<close>

datatype gesture = Edit js_string | KeyboardSubmit | ClickSend

text \<open>
  A call of a handler: the change handler with a change event that carries the new
  value, or the submit handler with a submit event.
\<close>

datatype ('c, 's) call = CallChange 'c js_string | CallSubmit 's

definition on_change :: "('c, 's) node \<Rightarrow> 'c list" where
  "on_change e = (case attribute ''onChange'' e of Some (ChangeHandler h) \<Rightarrow> [h] | _ \<Rightarrow> [])"

definition on_submit :: "('c, 's) node \<Rightarrow> 's list" where
  "on_submit e = (case attribute ''onSubmit'' e of Some (SubmitHandler h) \<Rightarrow> [h] | _ \<Rightarrow> [])"

text \<open>
  Modelled from the spec: the host's rule for a submission, which is not in the source.
  A form can be submitted when one of its submit controls is not disabled ("only when
  the control is not disabled"), and then each submit handler of the form is called once.
\<close>

definition can_submit :: "('c, 's) node \<Rightarrow> bool" where
  "can_submit f \<longleftrightarrow> list_ex (\<lambda>b. \<not> disabled b) (submit_controls f)"

definition submit_calls :: "('c, 's) node \<Rightarrow> ('c, 's) call list" where
  "submit_calls t =
     concat (map (\<lambda>f. if can_submit f then map CallSubmit (on_submit f) else [])
               (tagged ''form'' t))"

text \<open>
  Modelled from the spec: the host's delivery of a gesture, which is not in the source.
  An edit calls the change handlers of the text areas, once each, with the new value; a
  keyboard submit and a click on the send control both submit the forms.
\<close>

fun deliver :: "('c, 's) node \<Rightarrow> gesture \<Rightarrow> ('c, 's) call list" where
  "deliver t (Edit v) = concat (map (\<lambda>e. map (\<lambda>h. CallChange h v) (on_change e)) (tagged ''Textarea'' t))"
| "deliver t KeyboardSubmit = submit_calls t"
| "deliver t ClickSend = submit_calls t"

subsection \<open>The component on a heap\<close>

text \<open>
  The same function once more, with the caller's arrays in a heap. In JavaScript
  \<^verbatim>\<open>props.messages\<close> is a reference to an array the caller owns; the heap maps a reference
  to the array's contents (a reference always points to a live array, so the heap is
  total). The messages are held in the array by value, so a write to a field of a
  message would show as a changed array. The draft is a primitive string: it is held in
  the props by value, out of the component's reach. Every
  access of the source is one operation on the heap that returns its result and the heap
  after it: \<^verbatim>\<open>messages.length\<close>, \<^verbatim>\<open>messages[i]\<close> and \<^verbatim>\<open>messages.map(f)\<close> (with a callback
  that only reads its argument) read the array and leave it as it is.
\<close>

type_synonym addr = nat

type_synonym heap = "addr \<Rightarrow> message list"

definition array_length :: "addr \<Rightarrow> heap \<Rightarrow> nat \<times> heap" where
  "array_length a h = (length (h a), h)"

definition array_at :: "addr \<Rightarrow> int \<Rightarrow> heap \<Rightarrow> message option \<times> heap" where
  "array_at a i h = (at_index (h a) i, h)"

definition array_map :: "(message \<Rightarrow> 'b) \<Rightarrow> addr \<Rightarrow> heap \<Rightarrow> 'b list \<times> heap" where
  "array_map f a h = (map f (h a), h)"

text \<open>
  Lines 40-137 in evaluation order: the conditional of line 55, then the \<^verbatim>\<open>&&\<close> chain of
  line 96, which stops at its first false operand.
\<close>

definition ChatArea_on_heap ::
  "(addr, 'c, 's) ChatAreaProps \<Rightarrow> heap \<Rightarrow> ('c, 's) node \<times> heap" where
  "ChatArea_on_heap props h0 =
     (let (n, h1) = array_length (messages props) h0;
          (history, h2) =
            (if n = 0 then (empty_state, h1)
             else let (bubbles, h) = array_map message_bubble (messages props) h1
                  in (Items bubbles, h));
          (indicator, h3) =
            (if \<not> isLoading props then (JsFalse, h2)
             else let (n, h) = array_length (messages props) h2 in
               if \<not> n > 0 then (JsFalse, h)
               else let (n, h) = array_length (messages props) h;
                        (last_message, h) = array_at (messages props) (int n - 1) h
                    in if map_option role last_message = Some (utf16 ''user'')
                       then (loading_indicator, h) else (JsFalse, h))
      in (Element ''div'' None [(''className'', Str ''flex flex-col h-full'')]
            [header,
             Element ''ScrollArea'' None [(''className'', Str ''flex-1 p-4'')]
               [Element ''div'' None [(''className'', Str ''space-y-6'')] [history, indicator]],
             composer (input props) (handleInputChange props) (handleSubmit props) (isLoading props)],
          h3))"

text \<open>The props as the component sees them: the array reference followed into the heap.\<close>

definition props_in :: "heap \<Rightarrow> (addr, 'c, 's) ChatAreaProps \<Rightarrow> (message list, 'c, 's) ChatAreaProps" where
  "props_in h props =
     \<lparr>messages = h (messages props), input = input props,
      handleInputChange = handleInputChange props, handleSubmit = handleSubmit props,
      isLoading = isLoading props\<rparr>"

subsection \<open>The component in its world\<close>

text \<open>
  What a render can reach besides its props: the caller's arrays; the hook cells that
  the host keeps for the component from one render to the next (the state behind
  \<^verbatim>\<open>useState\<close>, \<^verbatim>\<open>useRef\<close> and the like); the variables of the module; the clock
  (\<^verbatim>\<open>Date.now\<close>) and the state of the random generator (\<^verbatim>\<open>Math.random\<close>). A component
  with state of its own reads and writes hook cells or module variables, and one that is
  not deterministic reads the clock or the generator.
\<close>

record 'v world =
  arrays :: heap
  hook_cells :: "'v list"
  module_vars :: "string \<Rightarrow> 'v option"
  clock :: int
  entropy :: nat

text \<open>An operation on the heap, done on the arrays of a world.\<close>

definition in_arrays :: "(heap \<Rightarrow> 'a \<times> heap) \<Rightarrow> 'v world \<Rightarrow> 'a \<times> 'v world" where
  "in_arrays f w = (let (x, h) = f (arrays w) in (x, w\<lparr>arrays := h\<rparr>))"

text \<open>
  Lines 40-137 in evaluation order, in a world. The source calls no hook, names no
  variable of the module and calls neither \<^verbatim>\<open>Date\<close> nor \<^verbatim>\<open>Math.random\<close>: its accesses
  to the world are the array reads of lines 55, 66 and 96.
\<close>

definition ChatArea_in_world ::
  "(addr, 'c, 's) ChatAreaProps \<Rightarrow> 'v world \<Rightarrow> ('c, 's) node \<times> 'v world" where
  "ChatArea_in_world props w0 =
     (let (n, w1) = in_arrays (array_length (messages props)) w0;
          (history, w2) =
            (if n = 0 then (empty_state, w1)
             else let (bubbles, w) = in_arrays (array_map message_bubble (messages props)) w1
                  in (Items bubbles, w));
          (indicator, w3) =
            (if \<not> isLoading props then (JsFalse, w2)
             else let (n, w) = in_arrays (array_length (messages props)) w2 in
               if \<not> n > 0 then (JsFalse, w)
               else let (n, w) = in_arrays (array_length (messages props)) w;
                        (last_message, w) = in_arrays (array_at (messages props) (int n - 1)) w
                    in if map_option role last_message = Some (utf16 ''user'')
                       then (loading_indicator, w) else (JsFalse, w))
      in (Element ''div'' None [(''className'', Str ''flex flex-col h-full'')]
            [header,
             Element ''ScrollArea'' None [(''className'', Str ''flex-1 p-4'')]
               [Element ''div'' None [(''className'', Str ''space-y-6'')] [history, indicator]],
             composer (input props) (handleInputChange props) (handleSubmit props) (isLoading props)],
          w3))"

subsection \<open>The messages of the spec's scenarios\<close>

definition hi :: message where
  "hi = \<lparr>id_msg = utf16 ''m1'', role = utf16 ''user'', content = utf16 ''Hi''\<rparr>"

definition hello :: message where
  "hello = \<lparr>id_msg = utf16 ''m2'', role = utf16 ''assistant'', content = utf16 ''Hello!''\<rparr>"

section \<open>Properties\<close>

subsection \<open>Strings and arrays\<close>

lemma trim_empty_iff: "trim s = [] \<longleftrightarrow> list_all is_white_space s"
proof -
  have "trim s = [] \<longleftrightarrow> (\<forall>c \<in> set (dropWhile is_white_space s). is_white_space c)"
    by (simp add: trim_def dropWhile_eq_Nil_conv)
  also have "\<dots> \<longleftrightarrow> dropWhile is_white_space s = []"
    using hd_dropWhile [of is_white_space s]
    by (cases "dropWhile is_white_space s") (auto dest: set_dropWhileD)
  also have "\<dots> \<longleftrightarrow> list_all is_white_space s"
    by (simp add: list_all_iff)
  finally show ?thesis .
qed

lemma at_index_last: "xs \<noteq> [] \<Longrightarrow> at_index xs (int (length xs) - 1) = Some (last xs)"
  by (simp add: at_index_def last_conv_nth nat_diff_distrib')

subsection \<open>The transcript\<close>

lemma rendered_message_bubble: "rendered (message_bubble m) = [message_bubble m]"
  by (simp add: message_bubble_def)

lemma rendered_empty_state: "rendered empty_state = [empty_state]"
  by (simp add: empty_state_def)

lemma rendered_loading_indicator: "rendered loading_indicator = [loading_indicator]"
  by (simp add: loading_indicator_def)

lemma rendered_bubbles: "concat (map (rendered \<circ> message_bubble) ms) = map message_bubble ms"
  by (induction ms) (simp_all add: rendered_message_bubble)

text \<open>What the transcript shows, in closed form.\<close>

lemma transcript_ChatArea:
  "transcript (ChatArea props) =
     (if messages props = [] then [empty_state] else map message_bubble (messages props)) @
     (if isLoading props \<and> messages props \<noteq> [] \<and> role (last (messages props)) = utf16 ''user''
      then [loading_indicator] else [])"
  by (simp add: ChatArea_def rendered_bubbles rendered_empty_state rendered_loading_indicator
        at_index_last)

text \<open>A bubble carries a key, the other two pieces do not; their class names differ.\<close>

lemma bubble_not_indicator: "message_bubble m \<noteq> loading_indicator"
  by (simp add: message_bubble_def loading_indicator_def)

lemma bubble_not_empty_state: "message_bubble m \<noteq> empty_state"
  by (simp add: message_bubble_def empty_state_def)

lemma empty_state_not_indicator: "empty_state \<noteq> loading_indicator"
  by (simp add: empty_state_def loading_indicator_def)

text \<open>
  C1. For all props, the transcript contains the loading indicator if and only if
  \<open>isLoading\<close> is true, the message array is not empty and the role of its last
  message is \<^verbatim>\<open>"user"\<close>.
\<close>

theorem loading_indicator_shown_iff:
  fixes props :: "(message list, 'c, 's) ChatAreaProps"
  shows "loading_indicator \<in> set (transcript (ChatArea props)) \<longleftrightarrow>
     isLoading props \<and> messages props \<noteq> [] \<and> role (last (messages props)) = utf16 ''user''"
proof -
  have "(loading_indicator :: ('c, 's) node) \<notin> message_bubble ` set (messages props)"
    using bubble_not_indicator by (metis imageE)
  moreover have "(loading_indicator :: ('c, 's) node) \<noteq> empty_state"
    using empty_state_not_indicator by metis
  ultimately show ?thesis
    by (simp add: transcript_ChatArea)
qed

text \<open>
  The indicator is shown after a user message while loading, and is not shown after an
  assistant message or on the empty array, loading or not.
\<close>

theorem loading_indicator_shown_iff_witness:
  "loading_indicator \<in> set (transcript (ChatArea
      \<lparr>messages = [hi], input = [], handleInputChange = (), handleSubmit = (), isLoading = True\<rparr>)) \<and>
   loading_indicator \<notin> set (transcript (ChatArea
      \<lparr>messages = [hi, hello], input = [], handleInputChange = (), handleSubmit = (), isLoading = True\<rparr>)) \<and>
   loading_indicator \<notin> set (transcript (ChatArea
      \<lparr>messages = [], input = [], handleInputChange = (), handleSubmit = (), isLoading = True\<rparr>))"
  using loading_indicator_shown_iff [of "\<lparr>messages = [hi], input = [], handleInputChange = (), handleSubmit = (), isLoading = True\<rparr>"]
    loading_indicator_shown_iff [of "\<lparr>messages = [hi, hello], input = [], handleInputChange = (), handleSubmit = (), isLoading = True\<rparr>"]
    loading_indicator_shown_iff [of "\<lparr>messages = [], input = [], handleInputChange = (), handleSubmit = (), isLoading = True\<rparr>"]
  by (simp add: hi_def hello_def utf16_def)

text \<open>
  C3. When the message array is empty, the transcript shows the empty-state greeting and
  nothing else: no bubble of any message and no loading indicator, whatever the loading
  flag and the draft are.
\<close>

theorem empty_messages_greeting_only:
  fixes props :: "(message list, 'c, 's) ChatAreaProps"
  assumes "messages props = []"
  shows "transcript (ChatArea props) = [empty_state] \<and>
         loading_indicator \<notin> set (transcript (ChatArea props)) \<and>
         (\<forall>m. message_bubble m \<notin> set (transcript (ChatArea props)))"
proof -
  have shown: "transcript (ChatArea props) = [empty_state]"
    using assms by (simp add: transcript_ChatArea)
  have "(loading_indicator :: ('c, 's) node) \<noteq> empty_state"
    using empty_state_not_indicator by metis
  moreover have "message_bubble m \<noteq> (empty_state :: ('c, 's) node)" for m
    by (rule bubble_not_empty_state)
  ultimately show ?thesis
    using shown by simp
qed

theorem empty_messages_greeting_only_witness:
  "transcript (ChatArea
      \<lparr>messages = [], input = utf16 ''draft'', handleInputChange = (), handleSubmit = (), isLoading = True\<rparr>)
     = [empty_state] \<and>
   loading_indicator \<notin> set (transcript (ChatArea
      \<lparr>messages = [], input = utf16 ''draft'', handleInputChange = (), handleSubmit = (), isLoading = True\<rparr>))"
proof -
  have "messages \<lparr>messages = [], input = utf16 ''draft'', handleInputChange = (),
      handleSubmit = (), isLoading = True\<rparr> = []"
    by simp
  from empty_messages_greeting_only [OF this] show ?thesis
    by blast
qed

text \<open>The key, the text and the paragraph of a bubble.\<close>

lemma key_of_bubble: "key_of (message_bubble m) = Some (id_msg m)"
  by (simp add: message_bubble_def)

lemma run_time_text_bubble: "run_time_text (message_bubble m) = [content m]"
  by (simp add: message_bubble_def)

lemma paragraphs_bubble:
  "tagged ''p'' (message_bubble m) =
     [Element ''p'' None [(''className'', Str ''whitespace-pre-wrap'')] [Expr (content m)]]"
  by (simp add: message_bubble_def tagged_def)

text \<open>
  C4. When the message array is not empty, the transcript shows the bubbles of the
  messages, one for each message and in the array's order, followed by the loading
  indicator when it is shown; apart from the indicator it shows nothing but the bubbles.
  The bubble of a message has the message's id as its key, and its only run-time text is
  the message's content, unchanged, in a paragraph of class \<^verbatim>\<open>whitespace-pre-wrap\<close>.
\<close>

theorem one_bubble_per_message_in_order:
  fixes props :: "(message list, 'c, 's) ChatAreaProps"
  assumes "messages props \<noteq> []"
  shows "transcript (ChatArea props) =
           map message_bubble (messages props) @
           (if isLoading props \<and> role (last (messages props)) = utf16 ''user''
            then [loading_indicator] else []) \<and>
         filter (\<lambda>n. n \<noteq> loading_indicator) (transcript (ChatArea props)) =
           map message_bubble (messages props) \<and>
         (\<forall>m. key_of (message_bubble m :: ('c, 's) node) = Some (id_msg m) \<and>
              run_time_text (message_bubble m :: ('c, 's) node) = [content m] \<and>
              tagged ''p'' (message_bubble m :: ('c, 's) node) =
                [Element ''p'' None [(''className'', Str ''whitespace-pre-wrap'')] [Expr (content m)]])"
proof -
  have shown: "transcript (ChatArea props) =
      map message_bubble (messages props) @
      (if isLoading props \<and> role (last (messages props)) = utf16 ''user''
       then [loading_indicator] else [])"
    using assms by (simp add: transcript_ChatArea)
  have "filter (\<lambda>n. n \<noteq> loading_indicator) (map message_bubble ms) =
      (map message_bubble ms :: ('c, 's) node list)" for ms
    by (induction ms) (simp_all add: bubble_not_indicator)
  then have bubbles: "filter (\<lambda>n. n \<noteq> loading_indicator) (transcript (ChatArea props)) =
      map message_bubble (messages props)"
    by (simp add: shown)
  show ?thesis
    using shown bubbles key_of_bubble run_time_text_bubble paragraphs_bubble by blast
qed

theorem one_bubble_per_message_in_order_witness:
  "transcript (ChatArea
      \<lparr>messages = [hi], input = [], handleInputChange = (), handleSubmit = (), isLoading = True\<rparr>)
     = [message_bubble hi, loading_indicator] \<and>
   transcript (ChatArea
      \<lparr>messages = [hi, hello], input = [], handleInputChange = (), handleSubmit = (), isLoading = False\<rparr>)
     = [message_bubble hi, message_bubble hello]"
  using one_bubble_per_message_in_order [of "\<lparr>messages = [hi], input = [], handleInputChange = (), handleSubmit = (), isLoading = True\<rparr>"]
    one_bubble_per_message_in_order [of "\<lparr>messages = [hi, hello], input = [], handleInputChange = (), handleSubmit = (), isLoading = False\<rparr>"]
  by (simp add: hi_def hello_def utf16_def)

subsection \<open>The composer\<close>

text \<open>The bubbles hold no form, no text area and no submit control.\<close>

lemma filter_elements_bubbles:
  assumes "\<And>m. filter P (elements (message_bubble m)) = []"
  shows "filter P (concat (map (elements \<circ> message_bubble) ms)) = []"
  using assms by (induction ms) simp_all

lemma bubble_no_submit_control:
  "filter (\<lambda>e. tag_of e = Some ''Button'' \<and> attribute ''type'' e = Some (Str ''submit''))
     (elements (message_bubble m)) = []"
  by (simp add: message_bubble_def)

lemma bubble_no_form: "filter (\<lambda>e. tag_of e = Some ''form'') (elements (message_bubble m)) = []"
  by (simp add: message_bubble_def)

lemma bubble_no_textarea: "filter (\<lambda>e. tag_of e = Some ''Textarea'') (elements (message_bubble m)) = []"
  by (simp add: message_bubble_def)

lemma submit_controls_ChatArea:
  "submit_controls (ChatArea props) =
     [Element ''Button'' None
        [(''type'', Str ''submit''),
         (''size'', Str ''icon''),
         (''className'', Str ''absolute right-2 bottom-2''),
         (''disabled'', Flag (isLoading props \<or> \<not> truthy (trim (input props))))]
        [Element ''SendIcon'' None [(''size'', Num 18)] []]]"
  by (simp add: submit_controls_def ChatArea_def header_def empty_state_def loading_indicator_def
        dot_def composer_def filter_elements_bubbles [OF bubble_no_submit_control])

text \<open>
  C2. For all props, the tree has one submit control, and it is disabled if and only if
  \<open>isLoading\<close> is true or the trimmed draft is empty. So it is disabled for every
  draft that is empty or holds white space only, loading or not, and enabled for every
  draft with a character that is not white space when \<open>isLoading\<close> is false.
\<close>

theorem submit_disabled_iff:
  "map disabled (submit_controls (ChatArea props)) = [isLoading props \<or> trim (input props) = []] \<and>
   (list_all is_white_space (input props) \<longrightarrow>
      map disabled (submit_controls (ChatArea props)) = [True]) \<and>
   (\<not> list_all is_white_space (input props) \<and> \<not> isLoading props \<longrightarrow>
      map disabled (submit_controls (ChatArea props)) = [False])"
proof -
  have flag: "map disabled (submit_controls (ChatArea props)) =
      [isLoading props \<or> trim (input props) = []]"
    by (simp add: submit_controls_ChatArea disabled_def truthy_def)
  show ?thesis
    unfolding flag by (simp add: trim_empty_iff)
qed

theorem submit_disabled_iff_witness:
  "map disabled (submit_controls (ChatArea
      \<lparr>messages = [hi], input = [0x20, 0x09, 0x0A, 0x3000], handleInputChange = (), handleSubmit = (),
       isLoading = False\<rparr>)) = [True] \<and>
   map disabled (submit_controls (ChatArea
      \<lparr>messages = [hi], input = utf16 '' ok '', handleInputChange = (), handleSubmit = (),
       isLoading = False\<rparr>)) = [False] \<and>
   map disabled (submit_controls (ChatArea
      \<lparr>messages = [hi], input = utf16 '' ok '', handleInputChange = (), handleSubmit = (),
       isLoading = True\<rparr>)) = [True]"
  using submit_disabled_iff [of "\<lparr>messages = [hi], input = [0x20, 0x09, 0x0A, 0x3000], handleInputChange = (), handleSubmit = (), isLoading = False\<rparr>"]
    submit_disabled_iff [of "\<lparr>messages = [hi], input = utf16 '' ok '', handleInputChange = (), handleSubmit = (), isLoading = False\<rparr>"]
    submit_disabled_iff [of "\<lparr>messages = [hi], input = utf16 '' ok '', handleInputChange = (), handleSubmit = (), isLoading = True\<rparr>"]
  by (simp add: is_white_space_def utf16_def trim_def)

subsection \<open>The presentation of a bubble\<close>

text \<open>
  C5. The presentation of a bubble is determined by the role of its message. For the role
  \<^verbatim>\<open>"user"\<close> the row is aligned to the end (\<^verbatim>\<open>justify-end\<close>) and reversed
  (\<^verbatim>\<open>flex-row-reverse\<close>), the bubble has the primary colours and the avatar falls back to
  "U"; for the role \<^verbatim>\<open>"assistant"\<close> the row is aligned to the start
  (\<^verbatim>\<open>justify-start\<close>) and not reversed, the bubble is muted and the avatar falls back to
  "AI". Two messages of the same role get the same class names and fallback.
\<close>

theorem bubble_presentation_by_role:
  fixes m :: message
  shows
  "(role m = utf16 ''user'' \<longrightarrow>
      class_names (message_bubble m :: ('c, 's) node) =
        [''flex justify-end'', ''flex gap-3 max-w-[80%] flex-row-reverse'', ''h-10 w-10'',
         ''rounded-lg p-4 bg-primary text-primary-foreground'', ''whitespace-pre-wrap''] \<and>
      fallback (message_bubble m :: ('c, 's) node) = [''U'']) \<and>
   (role m = utf16 ''assistant'' \<longrightarrow>
      class_names (message_bubble m :: ('c, 's) node) =
        [''flex justify-start'', ''flex gap-3 max-w-[80%] '', ''h-10 w-10'',
         ''rounded-lg p-4 bg-muted'', ''whitespace-pre-wrap''] \<and>
      fallback (message_bubble m :: ('c, 's) node) = [''AI'']) \<and>
   (\<forall>m'. role m' = role m \<longrightarrow>
      class_names (message_bubble m' :: ('c, 's) node) =
        class_names (message_bubble m :: ('c, 's) node) \<and>
      fallback (message_bubble m' :: ('c, 's) node) = fallback (message_bubble m :: ('c, 's) node))"
  by (simp add: message_bubble_def class_names_def class_name_def fallback_def tagged_def utf16_def)

theorem bubble_presentation_by_role_witness:
  "class_names (message_bubble hi :: (unit, unit) node) =
        [''flex justify-end'', ''flex gap-3 max-w-[80%] flex-row-reverse'', ''h-10 w-10'',
         ''rounded-lg p-4 bg-primary text-primary-foreground'', ''whitespace-pre-wrap''] \<and>
   fallback (message_bubble hi :: (unit, unit) node) = [''U''] \<and>
   class_names (message_bubble hello :: (unit, unit) node) =
        [''flex justify-start'', ''flex gap-3 max-w-[80%] '', ''h-10 w-10'',
         ''rounded-lg p-4 bg-muted'', ''whitespace-pre-wrap''] \<and>
   fallback (message_bubble hello :: (unit, unit) node) = [''AI'']"
proof -
  have user: "role hi = utf16 ''user''"
    by (simp add: hi_def)
  have assistant: "role hello = utf16 ''assistant''"
    by (simp add: hello_def)
  from user assistant
    bubble_presentation_by_role [where ?'c = unit and ?'s = unit and m = hi]
    bubble_presentation_by_role [where ?'c = unit and ?'s = unit and m = hello]
  show ?thesis
    by blast
qed

text \<open>
  C10. A message of any role other than \<^verbatim>\<open>"user"\<close> is rendered as an assistant message
  is: its bubble is the bubble of the same message with the role \<^verbatim>\<open>"assistant"\<close>
  (aligned to the start, muted, fallback "AI"). The bubble depends on the role only
  through whether it equals \<^verbatim>\<open>"user"\<close>.
\<close>

theorem other_roles_as_assistant:
  fixes m :: message
  shows
  "(role m \<noteq> utf16 ''user'' \<longrightarrow>
      (message_bubble m :: ('c, 's) node) = message_bubble (m\<lparr>role := utf16 ''assistant''\<rparr>) \<and>
      class_names (message_bubble m :: ('c, 's) node) =
        [''flex justify-start'', ''flex gap-3 max-w-[80%] '', ''h-10 w-10'',
         ''rounded-lg p-4 bg-muted'', ''whitespace-pre-wrap''] \<and>
      fallback (message_bubble m :: ('c, 's) node) = [''AI'']) \<and>
   (\<forall>m'. (role m' = utf16 ''user'') = (role m = utf16 ''user'') \<and>
         id_msg m' = id_msg m \<and> content m' = content m \<longrightarrow>
         (message_bubble m' :: ('c, 's) node) = message_bubble m)"
  by (simp add: message_bubble_def class_names_def class_name_def fallback_def tagged_def utf16_def)

theorem other_roles_as_assistant_witness:
  "(message_bubble \<lparr>id_msg = utf16 ''m3'', role = utf16 ''system'', content = utf16 ''Be brief.''\<rparr>
      :: (unit, unit) node) =
     message_bubble \<lparr>id_msg = utf16 ''m3'', role = utf16 ''assistant'', content = utf16 ''Be brief.''\<rparr> \<and>
   (message_bubble \<lparr>id_msg = utf16 ''m3'', role = utf16 ''data'', content = utf16 ''Be brief.''\<rparr>
      :: (unit, unit) node) =
     message_bubble \<lparr>id_msg = utf16 ''m3'', role = utf16 ''assistant'', content = utf16 ''Be brief.''\<rparr> \<and>
   fallback (message_bubble \<lparr>id_msg = utf16 ''m3'', role = utf16 ''system'', content = utf16 ''Be brief.''\<rparr>
      :: (unit, unit) node) = [''AI'']"
proof -
  let ?system = "\<lparr>id_msg = utf16 ''m3'', role = utf16 ''system'', content = utf16 ''Be brief.''\<rparr>"
  let ?data = "\<lparr>id_msg = utf16 ''m3'', role = utf16 ''data'', content = utf16 ''Be brief.''\<rparr>"
  have system: "role ?system \<noteq> utf16 ''user''" and data: "role ?data \<noteq> utf16 ''user''"
    by (simp_all add: utf16_def)
  have "?system\<lparr>role := utf16 ''assistant''\<rparr> = ?data\<lparr>role := utf16 ''assistant''\<rparr>"
    and "?system\<lparr>role := utf16 ''assistant''\<rparr> =
      \<lparr>id_msg = utf16 ''m3'', role = utf16 ''assistant'', content = utf16 ''Be brief.''\<rparr>"
    by simp_all
  with system data
    other_roles_as_assistant [where ?'c = unit and ?'s = unit and m = ?system]
    other_roles_as_assistant [where ?'c = unit and ?'s = unit and m = ?data]
  show ?thesis
    by metis
qed

subsection \<open>Handlers and gestures\<close>

text \<open>What the tree hands its handlers to, and what the gestures call.\<close>

lemma bubble_no_handler: "handlers_at e = []" if "e \<in> set (elements (message_bubble m))"
  using that by (auto simp add: message_bubble_def split: if_splits)

lemma handlers_ChatArea:
  "handlers (ChatArea props) =
     [(''form'', ''onSubmit'', SubmitHandler (handleSubmit props)),
      (''Textarea'', ''onChange'', ChangeHandler (handleInputChange props))]"
  by (simp add: handlers_def ChatArea_def header_def empty_state_def loading_indicator_def
        dot_def composer_def bubble_no_handler)

lemma forms_ChatArea:
  "tagged ''form'' (ChatArea props) =
     [Element ''form'' None
        [(''onSubmit'', SubmitHandler (handleSubmit props)), (''className'', Str ''relative'')]
        [Element ''Textarea'' None
           [(''name'', Str ''prompt''),
            (''value'', JsStr (input props)),
            (''onChange'', ChangeHandler (handleInputChange props)),
            (''placeholder'', Str ''Message AI Assistant...''),
            (''className'', Str ''min-h-[60px] w-full resize-none pr-12 py-3 rounded-lg''),
            (''rows'', Num 1)] [],
         Element ''Button'' None
           [(''type'', Str ''submit''),
            (''size'', Str ''icon''),
            (''className'', Str ''absolute right-2 bottom-2''),
            (''disabled'', Flag (isLoading props \<or> \<not> truthy (trim (input props))))]
           [Element ''SendIcon'' None [(''size'', Num 18)] []]]]"
  by (simp add: tagged_def ChatArea_def header_def empty_state_def loading_indicator_def
        dot_def composer_def filter_elements_bubbles [OF bubble_no_form])

lemma textareas_ChatArea:
  "tagged ''Textarea'' (ChatArea props) =
     [Element ''Textarea'' None
        [(''name'', Str ''prompt''),
         (''value'', JsStr (input props)),
         (''onChange'', ChangeHandler (handleInputChange props)),
         (''placeholder'', Str ''Message AI Assistant...''),
         (''className'', Str ''min-h-[60px] w-full resize-none pr-12 py-3 rounded-lg''),
         (''rows'', Num 1)] []]"
  by (simp add: tagged_def ChatArea_def header_def empty_state_def loading_indicator_def
        dot_def composer_def filter_elements_bubbles [OF bubble_no_textarea])

lemma submit_calls_ChatArea:
  "submit_calls (ChatArea props) =
     (if isLoading props \<or> trim (input props) = [] then [] else [CallSubmit (handleSubmit props)])"
  by (simp add: submit_calls_def forms_ChatArea can_submit_def submit_controls_def disabled_def
        on_submit_def truthy_def)

lemma edit_calls_ChatArea:
  "deliver (ChatArea props) (Edit v) = [CallChange (handleInputChange props) v]"
  by (simp add: textareas_ChatArea on_change_def)

text \<open>
  C6. The component hands the submit handler to one place only, the \<^verbatim>\<open>onSubmit\<close> of
  the composer form, and hands it on as it is, with no guard of its own. On the host
  modelled above, a submission (by keyboard or by a click on the send control) calls the
  handler once when the submit control is enabled, and calls nothing when \<open>isLoading\<close>
  is true or the trimmed draft is empty; an edit never calls the submit handler.
\<close>

theorem submit_only_when_enabled:
  "handlers (ChatArea props) =
     [(''form'', ''onSubmit'', SubmitHandler (handleSubmit props)),
      (''Textarea'', ''onChange'', ChangeHandler (handleInputChange props))] \<and>
   deliver (ChatArea props) KeyboardSubmit =
     (if isLoading props \<or> trim (input props) = [] then [] else [CallSubmit (handleSubmit props)]) \<and>
   deliver (ChatArea props) ClickSend =
     (if isLoading props \<or> trim (input props) = [] then [] else [CallSubmit (handleSubmit props)]) \<and>
   (\<forall>v h. CallSubmit h \<notin> set (deliver (ChatArea props) (Edit v)))"
proof -
  have "CallSubmit h \<notin> set (deliver (ChatArea props) (Edit v))" for v h
    by (subst edit_calls_ChatArea) simp
  then show ?thesis
    by (simp add: handlers_ChatArea submit_calls_ChatArea)
qed

theorem submit_only_when_enabled_witness:
  "deliver (ChatArea \<lparr>messages = [hi], input = utf16 ''next'', handleInputChange = ''onInputChange'',
      handleSubmit = ''onSubmit'', isLoading = True\<rparr>) ClickSend = [] \<and>
   deliver (ChatArea \<lparr>messages = [hi, hello], input = utf16 ''  '', handleInputChange = ''onInputChange'',
      handleSubmit = ''onSubmit'', isLoading = False\<rparr>) KeyboardSubmit = [] \<and>
   deliver (ChatArea \<lparr>messages = [hi, hello], input = utf16 ''next'', handleInputChange = ''onInputChange'',
      handleSubmit = ''onSubmit'', isLoading = False\<rparr>) ClickSend = [CallSubmit ''onSubmit'']"
  using submit_only_when_enabled [of "\<lparr>messages = [hi], input = utf16 ''next'', handleInputChange = ''onInputChange'', handleSubmit = ''onSubmit'', isLoading = True\<rparr>"]
    submit_only_when_enabled [of "\<lparr>messages = [hi, hello], input = utf16 ''  '', handleInputChange = ''onInputChange'', handleSubmit = ''onSubmit'', isLoading = False\<rparr>"]
    submit_only_when_enabled [of "\<lparr>messages = [hi, hello], input = utf16 ''next'', handleInputChange = ''onInputChange'', handleSubmit = ''onSubmit'', isLoading = False\<rparr>"]
  by (simp add: utf16_def trim_def is_white_space_def)

text \<open>
  C7. The text area is a controlled input: the draft it displays is the \<open>input\<close> of the
  props, its change handler is the caller's \<open>handleInputChange\<close> as it is, and on the
  host modelled above every edit calls that handler exactly once, with the new value.
\<close>

theorem controlled_textarea:
  "displayed_draft (ChatArea props) = [input props] \<and>
   map on_change (tagged ''Textarea'' (ChatArea props)) = [[handleInputChange props]] \<and>
   (\<forall>v. deliver (ChatArea props) (Edit v) = [CallChange (handleInputChange props) v])"
  by (simp add: displayed_draft_def value_of_def textareas_ChatArea on_change_def)

theorem controlled_textarea_witness:
  "displayed_draft (ChatArea \<lparr>messages = [hi], input = utf16 ''nex'', handleInputChange = ''onInputChange'',
      handleSubmit = ''onSubmit'', isLoading = False\<rparr>) = [utf16 ''nex''] \<and>
   deliver (ChatArea \<lparr>messages = [hi], input = utf16 ''nex'', handleInputChange = ''onInputChange'',
      handleSubmit = ''onSubmit'', isLoading = False\<rparr>) (Edit (utf16 ''next''))
     = [CallChange ''onInputChange'' (utf16 ''next'')]"
  using controlled_textarea [of "\<lparr>messages = [hi], input = utf16 ''nex'', handleInputChange = ''onInputChange'', handleSubmit = ''onSubmit'', isLoading = False\<rparr>"]
  by simp

subsection \<open>The component on a heap\<close>

text \<open>
  On a heap the component builds the tree of \<open>ChatArea\<close> for the props it sees, and
  returns the heap it was given.
\<close>

lemma ChatArea_on_heap_eq: "ChatArea_on_heap props h = (ChatArea (props_in h props), h)"
  by (auto simp add: ChatArea_on_heap_def ChatArea_def props_in_def array_length_def
        array_at_def array_map_def)

text \<open>
  In a world the component builds the tree of \<open>ChatArea\<close> for the props it sees, and
  returns the world it was given.
\<close>

lemma ChatArea_in_world_eq:
  "ChatArea_in_world props w = (ChatArea (props_in (arrays w) props), w)"
  by (auto simp add: ChatArea_in_world_def ChatArea_def props_in_def in_arrays_def
        array_length_def array_at_def array_map_def)

text \<open>
  C8. The component is deterministic and keeps no state. Two renders whose props agree
  (the same contents of the message array, the same draft, the same handlers and the same
  loading flag) give the same tree, whatever the hook cells, the module variables, the
  clock, the random generator and the other arrays of the two worlds are, and wherever
  the array lies; and each render leaves its world as it found it, so it stores nothing
  that a later render could read.
\<close>

theorem render_deterministic_stateless:
  fixes p q :: "(addr, 'c, 's) ChatAreaProps" and w w' :: "'v world"
  assumes "arrays w (messages p) = arrays w' (messages q)"
    and "input p = input q"
    and "handleInputChange p = handleInputChange q"
    and "handleSubmit p = handleSubmit q"
    and "isLoading p = isLoading q"
  shows "fst (ChatArea_in_world p w) = fst (ChatArea_in_world q w') \<and>
         snd (ChatArea_in_world p w) = w \<and> snd (ChatArea_in_world q w') = w'"
proof -
  have "props_in (arrays w) p = props_in (arrays w') q"
    using assms by (simp add: props_in_def)
  then show ?thesis
    by (simp add: ChatArea_in_world_eq)
qed

theorem render_deterministic_stateless_witness:
  "fst (ChatArea_in_world
      \<lparr>messages = 0, input = utf16 ''next'', handleInputChange = ''onInputChange'',
       handleSubmit = ''onSubmit'', isLoading = True\<rparr>
      \<lparr>arrays = (\<lambda>a. [])(0 := [hi]), hook_cells = [] :: nat list, module_vars = (\<lambda>x. None),
       clock = 0, entropy = 0\<rparr>)
   = fst (ChatArea_in_world
      \<lparr>messages = 1, input = utf16 ''next'', handleInputChange = ''onInputChange'',
       handleSubmit = ''onSubmit'', isLoading = True\<rparr>
      \<lparr>arrays = (\<lambda>a. [hello])(1 := [hi]), hook_cells = [7 :: nat, 8],
       module_vars = (\<lambda>x. Some 3), clock = 1730000000000, entropy = 42\<rparr>)"
proof -
  let ?p = "\<lparr>messages = 0 :: addr, input = utf16 ''next'', handleInputChange = ''onInputChange'',
       handleSubmit = ''onSubmit'', isLoading = True\<rparr>"
  let ?q = "\<lparr>messages = 1 :: addr, input = utf16 ''next'', handleInputChange = ''onInputChange'',
       handleSubmit = ''onSubmit'', isLoading = True\<rparr>"
  let ?w = "\<lparr>arrays = (\<lambda>a. [])(0 := [hi]), hook_cells = [], module_vars = (\<lambda>x. None),
       clock = 0, entropy = 0\<rparr> :: nat world"
  let ?w' = "\<lparr>arrays = (\<lambda>a. [hello])(1 := [hi]), hook_cells = [7 :: nat, 8],
       module_vars = (\<lambda>x. Some 3), clock = 1730000000000, entropy = 42\<rparr>"
  have same: "arrays ?w (messages ?p) = arrays ?w' (messages ?q)" "input ?p = input ?q"
    "handleInputChange ?p = handleInputChange ?q" "handleSubmit ?p = handleSubmit ?q"
    "isLoading ?p = isLoading ?q"
    by simp_all
  from render_deterministic_stateless [where p = ?p and q = ?q and w = ?w and w' = ?w', OF same]
  show ?thesis
    by (rule conjunct1)
qed

text \<open>
  C9. Rendering changes nothing the caller owns: the heap after the render is the heap
  before it, so every array, and with it the id, role and content of every message, is
  as it was. (The draft is a string value of the props; the handlers are placed in the
  tree and not called.)
\<close>

theorem render_leaves_heap:
  "snd (ChatArea_on_heap props h) = h"
  by (simp add: ChatArea_on_heap_eq)

theorem render_leaves_heap_witness:
  "snd (ChatArea_on_heap
      \<lparr>messages = 0, input = utf16 ''next'', handleInputChange = ''onInputChange'',
       handleSubmit = ''onSubmit'', isLoading = True\<rparr> ((\<lambda>a. [])(0 := [hi, hello]))) 0 = [hi, hello]"
  using render_leaves_heap [of "\<lparr>messages = 0, input = utf16 ''next'', handleInputChange = ''onInputChange'', handleSubmit = ''onSubmit'', isLoading = True\<rparr>" "(\<lambda>a. [])(0 := [hi, hello])"]
  by simp

end
